theory Spec2Isabelle
  imports Main "HOL-Library.Sublist"
begin

section \<open>The scorer\<close>

text \<open>
  \<^verbatim>\<open>compare\<close> of \<^verbatim>\<open>src/main.go\<close> (lines 193-208). Go's \<^verbatim>\<open>int\<close> is modelled as
  \<open>int\<close>: the index and the score only count upwards from 0 to at most the length of a
  slice, so no arithmetic wraps. The loop is the recursive function \<open>compare_loop\<close>, whose
  arguments are the loop's variables; the \<^verbatim>\<open>break\<close> is the branch that returns the
  score. Both reads are below \<open>length\<close>, the smaller of the two lengths, so no index is
  out of range.
\<close>

function compare_loop :: "int list \<Rightarrow> int list \<Rightarrow> int \<Rightarrow> int \<Rightarrow> int \<Rightarrow> int" where
  "compare_loop validNumbers inputNumbers len index score =
     (if index < len then
        (if validNumbers ! nat index = inputNumbers ! nat index
         then compare_loop validNumbers inputNumbers len (index + 1) (score + 1)
         else score)
      else score)"
  by pat_completeness auto
termination
  by (relation "measure (\<lambda>(v, u, len, index, score). nat (len - index))") auto

definition compare :: "int list \<Rightarrow> int list \<Rightarrow> int" where
  "compare validNumbers inputNumbers =
     (let len = int (length inputNumbers);
          len = (if int (length validNumbers) < len then int (length validNumbers) else len)
      in compare_loop validNumbers inputNumbers len 0 0)"

text \<open>
  \<^verbatim>\<open>compare\<close> of the full-screen variant, \<^verbatim>\<open>src/unnamed/part_000\<close> (lines 239-254),
  translated on its own from that file.
\<close>

function compare_termbox_loop :: "int list \<Rightarrow> int list \<Rightarrow> int \<Rightarrow> int \<Rightarrow> int \<Rightarrow> int" where
  "compare_termbox_loop validNumbers inputNumbers len index score =
     (if index < len then
        (if validNumbers ! nat index = inputNumbers ! nat index
         then compare_termbox_loop validNumbers inputNumbers len (index + 1) (score + 1)
         else score)
      else score)"
  by pat_completeness auto
termination
  by (relation "measure (\<lambda>(v, u, len, index, score). nat (len - index))") auto

definition compare_termbox :: "int list \<Rightarrow> int list \<Rightarrow> int" where
  "compare_termbox validNumbers inputNumbers =
     (let len = int (length inputNumbers);
          len = (if int (length validNumbers) < len then int (length validNumbers) else len)
      in compare_termbox_loop validNumbers inputNumbers len 0 0)"

declare compare_loop.simps [simp del]
declare compare_termbox_loop.simps [simp del]

section \<open>The random sequence generator\<close>





section \<open>The input collector\<close>

text \<open>
  \<^verbatim>\<open>strings.Split(s, " ")\<close> of the Go library, for the one-byte separator the program
  passes: the pieces between the separators, one more piece than there are separators,
  so the empty string gives one empty piece.
\<close>

primrec Split :: "string \<Rightarrow> char \<Rightarrow> string list" where
  "Split [] sep = [[]]"
| "Split (c # cs) sep =
     (if c = sep then [] # Split cs sep
      else (case Split cs sep of
              [] \<Rightarrow> [[c]]
            | piece # pieces \<Rightarrow> (c # piece) # pieces))"

text \<open>
  \<^verbatim>\<open>strconv.Atoi\<close> of the Go library, on a platform whose \<^verbatim>\<open>int\<close> has 64 bits, as
  \<^verbatim>\<open>ParseInt(s, 10, 0)\<close> over \<^verbatim>\<open>ParseUint\<close>. \<^verbatim>\<open>ParseUint\<close> reads the bytes from the
  left and stops at the first failure: a byte that is not a decimal digit gives value 0
  and a syntax error, and an accumulator that would leave 64 bits gives the largest value
  and a range error, whatever follows. \<^verbatim>\<open>ParseInt\<close> turns a syntax error into value 0
  and a range error into the nearest bound of the signed range. The unsigned accumulator
  is a \<open>nat\<close> reduced modulo \<open>2 ^ 64\<close>.
\<close>

datatype NumError = ErrSyntax | ErrRange

definition maxUint64 :: nat where
  "maxUint64 = 2 ^ 64 - 1"

primrec ParseUint_loop :: "string \<Rightarrow> nat \<Rightarrow> nat \<times> NumError option" where
  "ParseUint_loop [] n = (n, None)"
| "ParseUint_loop (c # cs) n =
     (if \<not> (48 \<le> (of_char c :: nat) \<and> (of_char c :: nat) \<le> 57) then (0, Some ErrSyntax)
      else
        (let d = (of_char c :: nat) - 48 in
         if n \<ge> maxUint64 div 10 + 1 then (maxUint64, Some ErrRange)
         else
           (let n' = (n * 10) mod 2 ^ 64;
                n1 = (n' + d) mod 2 ^ 64
            in if n1 < n' \<or> n1 > maxUint64 then (maxUint64, Some ErrRange)
               else ParseUint_loop cs n1)))"

definition ParseUint :: "string \<Rightarrow> nat \<times> NumError option" where
  "ParseUint s = (if s = [] then (0, Some ErrSyntax) else ParseUint_loop s 0)"

definition int64 :: "int \<Rightarrow> int" where
  "int64 x = (x + 2 ^ 63) mod 2 ^ 64 - 2 ^ 63"

definition ParseInt :: "string \<Rightarrow> int \<times> NumError option" where
  "ParseInt s =
     (if s = [] then (0, Some ErrSyntax)
      else
        (let neg = (hd s = CHR ''-'');
             s' = (if hd s = CHR ''+'' \<or> hd s = CHR ''-'' then tl s else s);
             (un, err) = ParseUint s'
         in if err = Some ErrSyntax then (0, err)
            else
              (let cutoff = (2 :: nat) ^ 63 in
               if \<not> neg \<and> un \<ge> cutoff then (int cutoff - 1, Some ErrRange)
               else if neg \<and> un > cutoff then (- int cutoff, Some ErrRange)
               else
                 (let n = int64 (int un) in
                  (if neg then int64 (- n) else n, None)))))"

definition Atoi :: "string \<Rightarrow> int \<times> NumError option" where
  "Atoi s = ParseInt s"

text \<open>
  \<^verbatim>\<open>getNumbersFromStdin\<close> (lines 177-191 of \<^verbatim>\<open>src/main.go\<close>). Its argument is what the
  scanner gives: \<open>Some text\<close> when \<^verbatim>\<open>scanner.Scan()\<close> is true, with the line without its
  end, and \<open>None\<close> when it is false. The loop over the pieces appends the first component
  of \<^verbatim>\<open>Atoi\<close> and drops the error.
\<close>

primrec numbers_loop :: "string list \<Rightarrow> int list \<Rightarrow> int list" where
  "numbers_loop [] numbers = numbers"
| "numbers_loop (piece # pieces) numbers =
     (let (number, _) = Atoi piece in numbers_loop pieces (numbers @ [number]))"

definition getNumbersFromStdin :: "string option \<Rightarrow> int list" where
  "getNumbersFromStdin scanned =
     (case scanned of
        None \<Rightarrow> []
      | Some text \<Rightarrow> numbers_loop (Split text CHR '' '') [])"

text \<open>
  \<^verbatim>\<open>getNumbers\<close> (lines 193-204 of \<^verbatim>\<open>src/unnamed/part_000\<close>). Its argument is the text
  that \<^verbatim>\<open>readText\<close> returned when the user pressed Enter; the screen coordinates only
  place the echo and are left out.
\<close>

definition getNumbers :: "string \<Rightarrow> int list" where
  "getNumbers text = numbers_loop (Split text CHR '' '') []"




section \<open>Properties of the scorer\<close>

text \<open>
  The loop, started at index \<open>i\<close> with the two slices agreeing nowhere needed before,
  adds to the score the length of the longest common prefix of what is left of the two
  slices from \<open>i\<close> on.
\<close>

lemma compare_loop_drop:
  assumes "i \<le> length v" "i \<le> length u" "len = int (min (length v) (length u))"
  shows "compare_loop v u len (int i) score =
           score + int (length (longest_common_prefix (drop i v) (drop i u)))"
  using assms
proof (induction "min (length v) (length u) - i" arbitrary: i score)
  case 0
  then have ge: "min (length v) (length u) \<le> i" by simp
  then have "\<not> int i < len" using "0.prems"(3) by linarith
  moreover from ge have "drop i v = [] \<or> drop i u = []" by (simp add: min_def split: if_splits)
  ultimately show ?case
    by (auto simp: compare_loop.simps [of v u len "int i" score])
next
  case (Suc k)
  then have lt: "i < length v" "i < length u" by auto
  then have il: "int i < len" using Suc.prems by simp
  have dv: "drop i v = v ! i # drop (Suc i) v" using lt by (simp add: Cons_nth_drop_Suc)
  have du: "drop i u = u ! i # drop (Suc i) u" using lt by (simp add: Cons_nth_drop_Suc)
  show ?case
  proof (cases "v ! i = u ! i")
    case True
    have "k = min (length v) (length u) - Suc i" using Suc.hyps(2) by simp
    then have "compare_loop v u len (int (Suc i)) (score + 1) =
                 (score + 1) + int (length (longest_common_prefix (drop (Suc i) v) (drop (Suc i) u)))"
      using Suc.hyps(1) [of "Suc i" "score + 1"] lt Suc.prems by simp
    moreover have "int i + 1 = int (Suc i)" by simp
    ultimately show ?thesis
      using True il dv du
      by (simp add: compare_loop.simps [of v u len "int i" score] add.commute)
  next
    case False
    then show ?thesis
      using il dv du by (simp add: compare_loop.simps [of v u len "int i" score])
  qed
qed

lemma compare_lcp:
  "compare v u = int (length (longest_common_prefix v u))"
proof -
  have "compare v u = compare_loop v u (int (min (length v) (length u))) (int 0) 0"
    by (simp add: compare_def Let_def min_def)
  then show ?thesis
    using compare_loop_drop [of 0 v u "int (min (length v) (length u))" 0] by simp
qed

lemma lcp_length_le:
  "length (longest_common_prefix v u) \<le> min (length v) (length u)"
  by (induction v u rule: longest_common_prefix.induct) auto

lemma lcp_same: "longest_common_prefix v v = v"
  by (induction v) auto

lemma compare_loops_agree:
  "compare_termbox_loop v u len index score = compare_loop v u len index score"
proof (induction v u len index score rule: compare_loop.induct)
  case (1 v u len index score)
  then show ?case
    by (simp add: compare_loop.simps [of v u len index score]
                  compare_termbox_loop.simps [of v u len index score])
qed

text \<open>
  C1. For every pair of integer sequences the scorer returns the length of their longest
  common prefix; the score is not negative and is at most the length of the shorter
  sequence.
\<close>

theorem compare_longest_common_prefix:
  "compare expected actual = int (length (longest_common_prefix expected actual))
   \<and> 0 \<le> compare expected actual
   \<and> compare expected actual \<le> int (min (length expected) (length actual))"
  using lcp_length_le [of expected actual] by (simp add: compare_lcp)

text \<open>
  C7. The scorer applied to a sequence and itself returns the length of the sequence.
\<close>

theorem compare_same: "compare A A = int (length A)"
  by (simp add: compare_lcp lcp_same)

text \<open>
  C10. The scorer of the plain-text variant and the scorer of the full-screen variant
  return the same score on every pair of sequences.
\<close>

theorem compare_variants_equal: "compare_termbox expected actual = compare expected actual"
  by (simp add: compare_termbox_def compare_def compare_loops_agree)

section \<open>Properties of the generator\<close>





section \<open>Properties of the input collector\<close>

lemma numbers_loop_map:
  "numbers_loop pieces numbers = numbers @ map (\<lambda>piece. fst (Atoi piece)) pieces"
  by (induction pieces arbitrary: numbers) (simp_all add: split_def)

lemma Split_not_empty: "Split s sep \<noteq> []"
  by (induction s) (simp_all split: list.splits)

lemma Split_length: "length (Split s sep) = Suc (length (filter (\<lambda>c. c = sep) s))"
  by (induction s) (auto split: list.splits simp: Split_not_empty)




lemma getNumbers_map:
  "getNumbersFromStdin (Some s) = map (\<lambda>piece. fst (Atoi piece)) (Split s CHR '' '')"
  "getNumbers s = map (\<lambda>piece. fst (Atoi piece)) (Split s CHR '' '')"
  by (simp_all add: getNumbersFromStdin_def getNumbers_def numbers_loop_map)




text \<open>
  C9. A collector that has read a line returns a sequence that is not empty, and the
  empty line gives the sequence that holds the one number 0.
\<close>

theorem collector_never_empty:
  "getNumbersFromStdin (Some line) \<noteq> [] \<and> getNumbersFromStdin (Some []) = [0]
   \<and> getNumbers line \<noteq> [] \<and> getNumbers [] = [0]"
proof -
  have "Atoi [] = (0, Some ErrSyntax)" by (simp add: Atoi_def ParseInt_def)
  then show ?thesis by (simp add: getNumbers_map Split_not_empty)
qed

end
